theory Spec2Isabelle
  imports
    Complex_Main
    "HOL-Library.Char_ord"
    "HOL-Library.List_Lexorder"
    "HOL-Library.Multiset"
begin

section \<open>Values exchanged with the collaborators\<close>

text \<open>
  The events of \<^verbatim>\<open>app.py\<close> are whatever \<^verbatim>\<open>json.loads\<close> returns: Python values built
  from \<^verbatim>\<open>None\<close>, booleans, numbers, strings, lists and dictionaries. A Python \<^verbatim>\<open>str\<close>
  is represented by its UTF-8 bytes; the byte-wise lexicographic order of UTF-8 is
  the code-point order that Python's comparison of strings uses. Numbers are
  represented by their exact value.
\<close>

datatype json =
    JNull
  | JBool bool
  | JNum rat
  | JStr string
  | JArr "json list"
  | JObj "(string \<times> json) list"

text \<open>The exceptions the operations of \<^verbatim>\<open>app.py\<close> can raise.\<close>

datatype error =
    AttributeError
  | TypeError
  | KeyError
  | JSONDecodeError
  | ConversionException
  | ConstraintException

text \<open>\<^verbatim>\<open>d.get(k, default)\<close> on a dictionary.\<close>

definition dict_get :: "(string \<times> json) list \<Rightarrow> string \<Rightarrow> json \<Rightarrow> json" where
  "dict_get d k dflt = (case map_of d k of None \<Rightarrow> dflt | Some v \<Rightarrow> v)"

section \<open>The point index store (RocksDB)\<close>

text \<open>
  \<^verbatim>\<open>db = rocksdb.DB("streaming_db", ...)\<close>: a key-value store whose iterator runs over
  the entries in the byte-wise order of the keys. The store is the list of its
  entries in scan order. The source stores \<^verbatim>\<open>json.dumps(v).encode()\<close> and reads
  \<^verbatim>\<open>json.loads(value.decode())\<close> back; the two are inverse to each other on the
  documents \<^verbatim>\<open>json.loads\<close> produces, so the store holds the document itself.
\<close>

type_synonym rocksdb = "(string \<times> json) list"

text \<open>\<^verbatim>\<open>db.put(key, value)\<close>: the entry of \<open>key\<close> is written, replacing an earlier one.\<close>

fun db_put :: "string \<Rightarrow> json \<Rightarrow> rocksdb \<Rightarrow> rocksdb" where
  "db_put key v [] = [(key, v)]"
| "db_put key v ((k', v') # rest) =
     (if key = k' then (key, v) # rest
      else if key < k' then (key, v) # (k', v') # rest
      else (k', v') # db_put key v rest)"

text \<open>
  \<^verbatim>\<open>db.get(key)\<close>, the point lookup of the store. \<^verbatim>\<open>app.py\<close> itself never calls it; it
  is the store's read of one key.
\<close>

definition db_get :: "string \<Rightarrow> rocksdb \<Rightarrow> json option" where
  "db_get key d = map_of d key"

text \<open>\<^verbatim>\<open>db.iterator()\<close>: the full scan, in key order.\<close>

definition db_iterator :: "rocksdb \<Rightarrow> (string \<times> json) list" where
  "db_iterator d = d"

section \<open>The analytical store (DuckDB)\<close>

text \<open>
  \<^verbatim>\<open>
  CREATE TABLE sensor_data (
      sensor_id UUID PRIMARY KEY,
      temperature FLOAT, humidity FLOAT, pressure FLOAT,
      recorded_at TIMESTAMP);
  \<close>
  A row of the table; \<open>None\<close> is SQL's \<^verbatim>\<open>NULL\<close>. The types \<open>'u\<close> and \<open>'t\<close> are the
  engine's values of type \<^verbatim>\<open>UUID\<close> and \<^verbatim>\<open>TIMESTAMP\<close>.
\<close>

record ('u, 't) row =
  sensor_id :: 'u
  temperature :: "rat option"
  humidity :: "rat option"
  pressure :: "rat option"
  recorded_at :: "'t option"

text \<open>
  What the SQL of \<^verbatim>\<open>app.py\<close> leaves to the engine: the casts of a bound Python value
  to the type of its column (\<open>None\<close> when the engine rejects the value) and
  \<^verbatim>\<open>date_trunc('minute', _)\<close>. They are parameters of the development.
\<close>

record ('u, 't) engine =
  cast_uuid :: "string \<Rightarrow> 'u option"
  cast_float :: "json \<Rightarrow> rat option"
  cast_timestamp :: "json \<Rightarrow> 't option"
  date_trunc_minute :: "'t \<Rightarrow> 't"

text \<open>A bound parameter: Python's \<^verbatim>\<open>None\<close> is \<^verbatim>\<open>NULL\<close>, any other value is cast.\<close>

definition bind_param :: "(json \<Rightarrow> 'a option) \<Rightarrow> json \<Rightarrow> error + 'a option" where
  "bind_param cast v =
     (if v = JNull then Inr None
      else case cast v of None \<Rightarrow> Inl ConversionException | Some x \<Rightarrow> Inr (Some x))"

text \<open>
  \<^verbatim>\<open>INSERT INTO sensor_data VALUES (?, ?, ?, ?, ?)\<close>: the five parameters are cast to
  the column types, the primary key \<^verbatim>\<open>sensor_id\<close> must be new, and the row is
  appended. A failed statement leaves the table as it was.
\<close>

definition insert_sensor_data ::
  "('u, 't) engine \<Rightarrow> string \<Rightarrow> json \<Rightarrow> json \<Rightarrow> json \<Rightarrow> json \<Rightarrow>
     ('u, 't) row list \<Rightarrow> error + ('u, 't) row list" where
  "insert_sensor_data eng key t h p ts tbl =
     (case cast_uuid eng key of
        None \<Rightarrow> Inl ConversionException
      | Some u \<Rightarrow>
     (case bind_param (cast_float eng) t of
        Inl e \<Rightarrow> Inl e
      | Inr t' \<Rightarrow>
     (case bind_param (cast_float eng) h of
        Inl e \<Rightarrow> Inl e
      | Inr h' \<Rightarrow>
     (case bind_param (cast_float eng) p of
        Inl e \<Rightarrow> Inl e
      | Inr p' \<Rightarrow>
     (case bind_param (cast_timestamp eng) ts of
        Inl e \<Rightarrow> Inl e
      | Inr ts' \<Rightarrow>
          if u \<in> sensor_id ` set tbl then Inl ConstraintException
          else Inr (tbl @ [\<lparr>sensor_id = u, temperature = t', humidity = h',
                             pressure = p', recorded_at = ts'\<rparr>]))))))"

section \<open>The streaming index\<close>

text \<open>
  The two module-level handles \<^verbatim>\<open>db\<close> and \<^verbatim>\<open>duckdb_conn\<close> are the state that every
  operation reads or writes.
\<close>

record ('u, 't) state =
  db :: rocksdb
  sensor_data :: "('u, 't) row list"

text \<open>
  \<^verbatim>\<open>indexed_value = {"data": value, "timestamp": value.get("timestamp", "unknown")}\<close>
\<close>

definition indexed_value :: "(string \<times> json) list \<Rightarrow> json" where
  "indexed_value d =
     JObj [(''data'', JObj d),
           (''timestamp'', dict_get d ''timestamp'' (JStr ''unknown''))]"

text \<open>
  \<^verbatim>\<open>StreamingIndex.store_event(key, value)\<close>. \<^verbatim>\<open>value.get\<close> exists on a dictionary
  only: any other value raises \<^verbatim>\<open>AttributeError\<close> before anything is written. The
  \<^verbatim>\<open>put\<close> comes first; an exception of the \<^verbatim>\<open>INSERT\<close> leaves the function with the
  \<^verbatim>\<open>put\<close> done.
\<close>

fun store_event ::
  "('u, 't) engine \<Rightarrow> string \<Rightarrow> json \<Rightarrow> ('u, 't) state \<Rightarrow> (error + unit) \<times> ('u, 't) state" where
  "store_event eng key (JObj d) s =
     (let s1 = s\<lparr>db := db_put key (indexed_value d) (db s)\<rparr> in
      case insert_sensor_data eng key
             (dict_get d ''temperature'' JNull) (dict_get d ''humidity'' JNull)
             (dict_get d ''pressure'' JNull) (dict_get d ''timestamp'' JNull)
             (sensor_data s1) of
        Inl e \<Rightarrow> (Inl e, s1)
      | Inr tbl \<Rightarrow> (Inr (), s1\<lparr>sensor_data := tbl\<rparr>))"
| "store_event eng key v s = (Inl AttributeError, s)"

text \<open>
  \<^verbatim>\<open>record["timestamp"]\<close> on a decoded document: a dictionary without the key raises
  \<^verbatim>\<open>KeyError\<close>, a document that is no dictionary raises \<^verbatim>\<open>TypeError\<close>.
\<close>

fun record_timestamp :: "json \<Rightarrow> error + json" where
  "record_timestamp (JObj d) =
     (case map_of d ''timestamp'' of None \<Rightarrow> Inl KeyError | Some ts \<Rightarrow> Inr ts)"
| "record_timestamp v = Inl TypeError"

text \<open>
  \<^verbatim>\<open>x >= timestamp_threshold\<close> with a \<^verbatim>\<open>str\<close> on the right: two strings are compared
  lexicographically, any other left operand raises \<^verbatim>\<open>TypeError\<close>.
\<close>

fun py_ge :: "json \<Rightarrow> string \<Rightarrow> error + bool" where
  "py_ge (JStr x) threshold = Inr (threshold \<le> x)"
| "py_ge v threshold = Inl TypeError"

text \<open>
  The loop of \<^verbatim>\<open>query_events\<close> over the iterator, with \<^verbatim>\<open>results\<close> as accumulator.
\<close>

fun query_loop :: "string \<Rightarrow> (string \<times> json) list \<Rightarrow> json list \<Rightarrow> error + json list" where
  "query_loop threshold [] results = Inr results"
| "query_loop threshold ((key, record) # it) results =
     (case record_timestamp record of
        Inl e \<Rightarrow> Inl e
      | Inr ts \<Rightarrow>
          (case py_ge ts threshold of
             Inl e \<Rightarrow> Inl e
           | Inr b \<Rightarrow> query_loop threshold it (if b then results @ [record] else results)))"

text \<open>\<^verbatim>\<open>StreamingIndex.query_events(timestamp_threshold)\<close>\<close>

definition query_events ::
  "string \<Rightarrow> ('u, 't) state \<Rightarrow> (error + json list) \<times> ('u, 't) state" where
  "query_events timestamp_threshold s =
     (query_loop timestamp_threshold (db_iterator (db s)) [], s)"

text \<open>
  \<^verbatim>\<open>AVG\<close> of a column over a group: the mean of the values that are not \<^verbatim>\<open>NULL\<close>, and
  \<^verbatim>\<open>NULL\<close> when there is none. The mean is the exact one; the engine returns the
  floating-point number next to it.
\<close>

definition avg :: "rat option list \<Rightarrow> rat option" where
  "avg xs =
     (let ys = [y. Some y \<leftarrow> xs]
      in if ys = [] then None else Some (sum_list ys / of_nat (length ys)))"

definition time_bucket :: "('u, 't) engine \<Rightarrow> ('u, 't) row \<Rightarrow> 't option" where
  "time_bucket eng r = map_option (date_trunc_minute eng) (recorded_at r)"

text \<open>
  \<^verbatim>\<open>
  SELECT sensor_id, AVG(temperature), AVG(humidity), AVG(pressure),
         date_trunc('minute', recorded_at) AS time_bucket
  FROM sensor_data GROUP BY sensor_id, time_bucket;
  \<close>
  One tuple per group. SQL leaves the order of the groups open; here they come in
  the order of \<open>remdups\<close>.
\<close>

definition aggregate_metrics ::
  "('u, 't) engine \<Rightarrow> ('u, 't) state \<Rightarrow>
     ('u \<times> rat option \<times> rat option \<times> rat option \<times> 't option) list \<times> ('u, 't) state" where
  "aggregate_metrics eng s =
     (map (\<lambda>(sid, bucket).
             let g = filter (\<lambda>r. sensor_id r = sid \<and> time_bucket eng r = bucket) (sensor_data s)
             in (sid, avg (map temperature g), avg (map humidity g),
                 avg (map pressure g), bucket))
        (remdups (map (\<lambda>r. (sensor_id r, time_bucket eng r)) (sensor_data s))),
      s)"

section \<open>The ingestion loop\<close>

text \<open>
  A message of the consumer: the key as the bytes Kafka delivers (or \<^verbatim>\<open>None\<close>), and
  what \<^verbatim>\<open>value_deserializer = lambda x: json.loads(x.decode('utf-8'))\<close> makes of the
  payload: \<open>None\<close> when the decoding or the parsing raises.
\<close>

record message =
  msg_key :: "string option"
  msg_value :: "json option"

text \<open>
  \<^verbatim>\<open>str(message.key)\<close>: \<^verbatim>\<open>'None'\<close> for a missing key, and for bytes their \<^verbatim>\<open>repr\<close>: the
  letter \<^verbatim>\<open>b\<close> and the quoted, escaped bytes.
\<close>

definition hexdigit :: "nat \<Rightarrow> char" where
  "hexdigit n = ''0123456789abcdef'' ! n"

definition repr_byte :: "char \<Rightarrow> char \<Rightarrow> string" where
  "repr_byte quote c =
     (if c = quote \<or> c = CHR 0x5C then [CHR 0x5C, c]
      else if c = CHR 0x09 then [CHR 0x5C, CHR ''t'']
      else if c = CHR 0x0A then [CHR 0x5C, CHR ''n'']
      else if c = CHR 0x0D then [CHR 0x5C, CHR ''r'']
      else if (of_char c :: nat) < 32 \<or> 127 \<le> (of_char c :: nat)
        then [CHR 0x5C, CHR ''x'', hexdigit (of_char c div 16), hexdigit (of_char c mod 16)]
      else [c])"

definition bytes_repr :: "string \<Rightarrow> string" where
  "bytes_repr b =
     (let quote = (if CHR 0x27 \<in> set b \<and> CHR 0x22 \<notin> set b then CHR 0x22 else CHR 0x27)
      in [CHR ''b'', quote] @ concat (map (repr_byte quote) b) @ [quote])"

definition py_str :: "string option \<Rightarrow> string" where
  "py_str k = (case k of None \<Rightarrow> ''None'' | Some b \<Rightarrow> bytes_repr b)"

text \<open>
  \<^verbatim>\<open>
  def consume_stream():
      for message in consumer:
          stream_index.store_event(str(message.key), message.value)
  \<close>
  The list holds the messages the consumer delivers, in order. Nothing in the loop
  catches an exception: one raised by the deserializer or by \<open>store_event\<close> ends
  the loop. \<open>Inr ()\<close> is the loop that has taken every message of the list and waits
  for the next.
\<close>

fun consume_stream ::
  "('u, 't) engine \<Rightarrow> message list \<Rightarrow> ('u, 't) state \<Rightarrow> (error + unit) \<times> ('u, 't) state" where
  "consume_stream eng [] s = (Inr (), s)"
| "consume_stream eng (m # ms) s =
     (case msg_value m of
        None \<Rightarrow> (Inl JSONDecodeError, s)
      | Some v \<Rightarrow>
          (case store_event eng (py_str (msg_key m)) v s of
             (Inl e, s') \<Rightarrow> (Inl e, s')
           | (Inr u, s') \<Rightarrow> consume_stream eng ms s'))"

section \<open>The query interface\<close>

definition query_data ::
  "string \<Rightarrow> ('u, 't) state \<Rightarrow> (error + json list) \<times> ('u, 't) state" where
  "query_data timestamp_threshold s = query_events timestamp_threshold s"

definition get_aggregated_metrics ::
  "('u, 't) engine \<Rightarrow> ('u, 't) state \<Rightarrow>
     ('u \<times> rat option \<times> rat option \<times> rat option \<times> 't option) list \<times> ('u, 't) state" where
  "get_aggregated_metrics eng s = aggregate_metrics eng s"

text \<open>
  \<^verbatim>\<open>
  async def websocket_query(websocket):
      await websocket.accept()
      it = db.iterator()
      for key, value in it:
          record = json.loads(value.decode())
          await websocket.send_json(record)
  \<close>
  The handler is the sequence of the calls it makes on the socket; after the last
  one it returns, which ends the connection.
\<close>

datatype ws_call = Accept | SendJson json

definition websocket_query :: "('u, 't) state \<Rightarrow> ws_call list" where
  "websocket_query s = Accept # map (\<lambda>(key, record). SendJson record) (db_iterator (db s))"

section \<open>Notions the properties are stated with\<close>

text \<open>
  A caller that stores one event after the other, each under its key, and goes on
  whatever a call returns.
\<close>

fun store_events ::
  "('u, 't) engine \<Rightarrow> (string \<times> (string \<times> json) list) list \<Rightarrow> ('u, 't) state \<Rightarrow> ('u, 't) state" where
  "store_events eng [] s = s"
| "store_events eng ((key, d) # evs) s =
     store_events eng evs (snd (store_event eng key (JObj d) s))"

text \<open>The timestamp of a stored record, when it is a string.\<close>

fun timestamp_str :: "json \<Rightarrow> string option" where
  "timestamp_str (JObj d) =
     (case map_of d ''timestamp'' of Some (JStr ts) \<Rightarrow> Some ts | _ \<Rightarrow> None)"
| "timestamp_str v = None"

definition has_timestamp_str :: "json \<Rightarrow> bool" where
  "has_timestamp_str r = (timestamp_str r \<noteq> None)"

text \<open>\<open>timestamp >= threshold\<close> under string comparison.\<close>

definition timestamp_ge :: "string \<Rightarrow> json \<Rightarrow> bool" where
  "timestamp_ge threshold r =
     (case timestamp_str r of None \<Rightarrow> False | Some ts \<Rightarrow> threshold \<le> ts)"

definition is_digit :: "char \<Rightarrow> bool" where
  "is_digit c = (c \<in> set ''0123456789'')"

text \<open>
  The record of the specification's data model, whose timestamp is copied from the
  field \<^verbatim>\<open>recordedAt\<close> of the event:
  \<^verbatim>\<open>{data: event, timestamp: event.recordedAt ?? "unknown"}\<close>.
\<close>

definition spec_indexed_record :: "(string \<times> json) list \<Rightarrow> json" where
  "spec_indexed_record d =
     JObj [(''data'', JObj d),
           (''timestamp'', dict_get d ''recordedAt'' (JStr ''unknown''))]"

section \<open>An engine to evaluate with\<close>

text \<open>
  One instance of the engine's casts, for running the operations on concrete
  inputs. It takes the canonical texts only: a UUID is 32 hexadecimal digits with
  hyphens between them, read without regard to case; a number is cast to itself; a
  timestamp is a text of the shape \<^verbatim>\<open>YYYY-MM-DD hh:mm:ss\<close> (or with \<^verbatim>\<open>T\<close> between
  date and time).
\<close>

definition is_hex :: "char \<Rightarrow> bool" where
  "is_hex c = (c \<in> set ''0123456789abcdefABCDEF'')"

definition lower_hex :: "char \<Rightarrow> char" where
  "lower_hex c = (case map_of (zip ''ABCDEF'' ''abcdef'') c of None \<Rightarrow> c | Some l \<Rightarrow> l)"

definition uuid_of_string :: "string \<Rightarrow> string option" where
  "uuid_of_string x =
     (let h = filter (\<lambda>c. c \<noteq> CHR ''-'') x
      in if length h = 32 \<and> list_all is_hex h then Some (map lower_hex h) else None)"

fun float_of_json :: "json \<Rightarrow> rat option" where
  "float_of_json (JNum q) = Some q"
| "float_of_json v = None"

definition timestamp_char :: "char \<Rightarrow> char \<Rightarrow> bool" where
  "timestamp_char p c =
     (if p = CHR ''d'' then is_digit c
      else if p = CHR ''T'' then c = CHR ''T'' \<or> c = CHR '' ''
      else c = p)"

fun timestamp_of_json :: "json \<Rightarrow> string option" where
  "timestamp_of_json (JStr x) =
     (if list_all2 timestamp_char ''dddd-dd-ddTdd:dd:dd'' x then Some (x[10 := CHR '' ''])
      else None)"
| "timestamp_of_json v = None"

definition minute_of :: "string \<Rightarrow> string" where
  "minute_of ts = take 17 ts @ ''00''"

definition sample_engine :: "(string, string) engine" where
  "sample_engine =
     \<lparr>cast_uuid = uuid_of_string, cast_float = float_of_json,
      cast_timestamp = timestamp_of_json, date_trunc_minute = minute_of\<rparr>"

definition empty_state :: "(string, string) state" where
  "empty_state = \<lparr>db = [], sensor_data = []\<rparr>"

text \<open>The documents a trace of socket calls has pushed, in order.\<close>

fun pushed :: "ws_call list \<Rightarrow> json list" where
  "pushed [] = []"
| "pushed (Accept # cs) = pushed cs"
| "pushed (SendJson r # cs) = r # pushed cs"

section \<open>Inputs to evaluate on\<close>

definition sensor_a :: string where
  "sensor_a = ''550e8400-e29b-41d4-a716-446655440000''"

definition sensor_b :: string where
  "sensor_b = ''123e4567-e89b-12d3-a456-426614174000''"

definition reading_20 :: "(string \<times> json) list" where
  "reading_20 = [(''temperature'', JNum 20), (''timestamp'', JStr ''2024-01-01T10:00:05'')]"

definition reading_22 :: "(string \<times> json) list" where
  "reading_22 = [(''temperature'', JNum 22), (''timestamp'', JStr ''2024-01-01T10:00:40'')]"

definition reading_old :: "(string \<times> json) list" where
  "reading_old = [(''temperature'', JNum 18), (''timestamp'', JStr ''2023-12-31T23:59:59'')]"

definition two_records :: "(string, string) state" where
  "two_records =
     \<lparr>db = [(sensor_b, indexed_value reading_old), (sensor_a, indexed_value reading_20)],
      sensor_data = []\<rparr>"

definition reading_null :: "(string \<times> json) list" where
  "reading_null = [(''temperature'', JNum 21), (''timestamp'', JNull)]"

definition null_record :: "(string, string) state" where
  "null_record = \<lparr>db = [(sensor_b, indexed_value reading_null)], sensor_data = []\<rparr>"

section \<open>The point index\<close>

lemma db_get_put_same: "db_get key (db_put key v d) = Some v"
  by (induction d) (auto simp: db_get_def)

lemma db_get_put_other: "k \<noteq> key \<Longrightarrow> db_get k (db_put key v d) = db_get k d"
  by (induction d) (auto simp: db_get_def)

lemma db_put_commute:
  "k1 \<noteq> k2 \<Longrightarrow> db_put k1 v1 (db_put k2 v2 d) = db_put k2 v2 (db_put k1 v1 d)"
  by (induction d) auto

lemma keys_db_put: "set (map fst (db_put k v d)) = insert k (set (map fst d))"
  by (induction d) force+

lemma mset_db_put_new:
  "k \<notin> set (map fst d) \<Longrightarrow> mset (db_put k v d) = add_mset (k, v) (mset d)"
  by (induction d) auto


lemma db_store_event_obj:
  "db (snd (store_event eng key (JObj d) s)) = db_put key (indexed_value d) (db s)"
  by (simp add: Let_def split: sum.splits)

lemma db_store_events:
  "db (store_events eng evs s) = fold (\<lambda>(k, d). db_put k (indexed_value d)) evs (db s)"
  by (induction evs arbitrary: s) (auto simp: db_store_event_obj simp del: store_event.simps)

text \<open>
  C1. After \<open>store_event\<close> of \<open>e1\<close> and then of \<open>e2\<close> under the same key, the point
  lookup of the key returns the record built from \<open>e2\<close>: whatever the store held
  before, whatever the first call did, and whether or not the \<^verbatim>\<open>INSERT\<close> of either
  call failed.
\<close>

theorem store_event_last_write_wins:
  "db_get key (db (snd (store_event eng key (JObj d2)
      (snd (store_event eng key e1 s))))) = Some (indexed_value d2)"
  by (simp only: db_store_event_obj db_get_put_same)

text \<open>
  C4, as the code has it. The record that \<open>store_event\<close> writes for an event holds
  the event as \<^verbatim>\<open>data\<close>, and as \<^verbatim>\<open>timestamp\<close> the value of the event's field
  \<^verbatim>\<open>timestamp\<close> (whatever that value is), or the text \<^verbatim>\<open>unknown\<close> when the event has
  no such field. The field \<^verbatim>\<open>recordedAt\<close> is not read.
\<close>

theorem store_event_indexed_record:
  "db_get key (db (snd (store_event eng key (JObj d) s))) =
     Some (JObj [(''data'', JObj d),
                 (''timestamp'', case map_of d ''timestamp'' of
                                   None \<Rightarrow> JStr ''unknown'' | Some ts \<Rightarrow> ts)])"
  by (simp only: db_store_event_obj db_get_put_same indexed_value_def dict_get_def)

text \<open>
  C4 as stated fails: an event that carries its time in \<^verbatim>\<open>recordedAt\<close> is stored with
  the timestamp \<^verbatim>\<open>unknown\<close>, not with the value of \<^verbatim>\<open>recordedAt\<close>.
\<close>

theorem indexed_value_ignores_recordedAt:
  "db_get sensor_a (db (snd (store_event sample_engine sensor_a
       (JObj [(''temperature'', JNum 20), (''recordedAt'', JStr ''2024-01-01T10:00:05'')])
       empty_state)))
   \<noteq> Some (spec_indexed_record
       [(''temperature'', JNum 20), (''recordedAt'', JStr ''2024-01-01T10:00:05'')])"
  by (simp only: db_store_event_obj db_get_put_same)
     (simp add: spec_indexed_record_def indexed_value_def dict_get_def)

section \<open>The two writes of \<open>store_event\<close>\<close>

text \<open>
  C7. When the \<^verbatim>\<open>INSERT\<close> of \<open>store_event\<close> fails, the call returns that failure to
  its caller, the point index holds the new record of the key, the table is what it
  was, and nothing else has been written: the \<^verbatim>\<open>put\<close> is not undone and the
  \<^verbatim>\<open>INSERT\<close> is not tried again.
\<close>

theorem store_event_no_rollback:
  assumes "insert_sensor_data eng key
             (dict_get d ''temperature'' JNull) (dict_get d ''humidity'' JNull)
             (dict_get d ''pressure'' JNull) (dict_get d ''timestamp'' JNull)
             (sensor_data s) = Inl e"
  shows "store_event eng key (JObj d) s =
           (Inl e, s\<lparr>db := db_put key (indexed_value d) (db s)\<rparr>)
       \<and> db_get key (db (snd (store_event eng key (JObj d) s))) = Some (indexed_value d)
       \<and> sensor_data (snd (store_event eng key (JObj d) s)) = sensor_data s"
  using assms by (simp add: db_get_put_same)

text \<open>
  An instance: the key that the ingestion loop makes of the bytes \<^verbatim>\<open>sensor-1\<close> is no
  UUID, the \<^verbatim>\<open>INSERT\<close> is rejected, and the record stays in the point index.
\<close>

theorem store_event_no_rollback_witness:
  "insert_sensor_data sample_engine (py_str (Some ''sensor-1''))
       (dict_get reading_20 ''temperature'' JNull) (dict_get reading_20 ''humidity'' JNull)
       (dict_get reading_20 ''pressure'' JNull) (dict_get reading_20 ''timestamp'' JNull)
       (sensor_data empty_state) = Inl ConversionException
   \<and> store_event sample_engine (py_str (Some ''sensor-1'')) (JObj reading_20) empty_state =
       (Inl ConversionException,
        \<lparr>db = [(py_str (Some ''sensor-1''), indexed_value reading_20)], sensor_data = []\<rparr>)"
proof -
  have h: "insert_sensor_data sample_engine (py_str (Some ''sensor-1''))
       (dict_get reading_20 ''temperature'' JNull) (dict_get reading_20 ''humidity'' JNull)
       (dict_get reading_20 ''pressure'' JNull) (dict_get reading_20 ''timestamp'' JNull)
       (sensor_data empty_state) = Inl ConversionException"
    by (simp add: insert_sensor_data_def sample_engine_def uuid_of_string_def py_str_def
        bytes_repr_def repr_byte_def Let_def)
  from store_event_no_rollback [OF h]
  show ?thesis using h by (simp add: empty_state_def)
qed

section \<open>The primary key of \<^verbatim>\<open>sensor_data\<close>\<close>

lemmas evaluation =
  sample_engine_def uuid_of_string_def is_hex_def lower_hex_def timestamp_char_def
  is_digit_def minute_of_def insert_sensor_data_def bind_param_def dict_get_def
  indexed_value_def reading_20_def reading_22_def sensor_a_def empty_state_def

text \<open>
  Whatever the engine, a key that \<open>store_event\<close> has inserted once is rejected the
  next time: the second call writes the point index and raises.
\<close>

lemma store_event_same_key_again:
  assumes "fst (store_event eng key (JObj d1) s) = Inr ()"
  shows "\<exists>e. store_event eng key (JObj d2) (snd (store_event eng key (JObj d1) s)) =
     (Inl e, (snd (store_event eng key (JObj d1) s))
               \<lparr>db := db_put key (indexed_value d2) (db_put key (indexed_value d1) (db s))\<rparr>)"
  using assms
  by (auto simp: insert_sensor_data_def Let_def split: option.splits sum.splits if_splits)

text \<open>
  C2, on the code. The first \<open>store_event\<close> of an id succeeds; the second one, with
  the same id, raises the constraint violation of the primary key, and the table
  keeps its one row.
\<close>

theorem same_id_twice_rejected:
  "fst (store_event sample_engine sensor_a (JObj reading_20) empty_state) = Inr ()
   \<and> fst (store_event sample_engine sensor_a (JObj reading_20)
         (snd (store_event sample_engine sensor_a (JObj reading_20) empty_state)))
       = Inl ConstraintException
   \<and> length (sensor_data (snd (store_event sample_engine sensor_a (JObj reading_20)
         (snd (store_event sample_engine sensor_a (JObj reading_20) empty_state))))) = 1"
  by (simp add: evaluation)

text \<open>
  The query by itself takes the mean of a group: over a table that holds the two
  readings 20 and 22 of one sensor, it returns 21 when they fall into one minute.
\<close>

lemma aggregate_two_rows_mean:
  "fst (aggregate_metrics eng \<lparr>db = d, sensor_data =
      [\<lparr>sensor_id = u, temperature = Some 20, humidity = None, pressure = None,
        recorded_at = Some t1\<rparr>,
       \<lparr>sensor_id = u, temperature = Some 22, humidity = None, pressure = None,
        recorded_at = Some t2\<rparr>]\<rparr>)
   = (if date_trunc_minute eng t1 = date_trunc_minute eng t2
      then [(u, Some 21, None, None, Some (date_trunc_minute eng t2))]
      else [(u, Some 20, None, None, Some (date_trunc_minute eng t1)),
            (u, Some 22, None, None, Some (date_trunc_minute eng t2))])"
  by (simp add: aggregate_metrics_def avg_def time_bucket_def)

text \<open>
  C5, on the code. After the readings 20 and 22 of one sensor, 35 seconds apart in
  one minute, have been passed to \<open>store_event\<close>, the table holds the first reading
  only, and \<open>aggregate_metrics\<close> returns the average 20 for the group.
\<close>

theorem aggregate_after_two_readings:
  "fst (aggregate_metrics sample_engine
         (store_events sample_engine [(sensor_a, reading_20), (sensor_a, reading_22)]
            empty_state))
     = [(''550e8400e29b41d4a716446655440000'', Some 20, None, None,
         Some ''2024-01-01 10:00:00'')]"
  by (simp add: evaluation aggregate_metrics_def avg_def time_bucket_def)

section \<open>The scan of \<open>query_events\<close>\<close>

lemma query_loop_acc:
  "list_all has_timestamp_str (map snd it) \<Longrightarrow>
   query_loop t it acc = Inr (acc @ filter (timestamp_ge t) (map snd it))"
proof (induction it arbitrary: acc)
  case Nil
  then show ?case by simp
next
  case (Cons a it)
  obtain k r where a: "a = (k, r)" by (cases a)
  from Cons.prems a have "has_timestamp_str r" by simp
  then obtain d ts where r: "r = JObj d" "map_of d ''timestamp'' = Some (JStr ts)"
    by (cases r) (auto simp: has_timestamp_str_def split: option.splits json.splits)
  with Cons a show ?case by (simp add: timestamp_ge_def)
qed

text \<open>Puts under different keys can be exchanged, so the order of ingestion is lost.\<close>

lemma fold_db_put_permute:
  assumes "mset evs' = mset evs" "distinct (map fst evs)"
  shows "fold (\<lambda>(k, d). db_put k (indexed_value d)) evs' d0 =
         fold (\<lambda>(k, d). db_put k (indexed_value d)) evs d0"
proof -
  have "fold (\<lambda>(k, d). db_put k (indexed_value d)) evs =
        fold (\<lambda>(k, d). db_put k (indexed_value d)) evs'"
  proof (rule fold_multiset_equiv)
    fix x y assume xy: "x \<in> set evs" "y \<in> set evs"
    obtain k1 d1 k2 d2 where x: "x = (k1, d1)" and y: "y = (k2, d2)"
      by (cases x, cases y)
    show "(case x of (k, d) \<Rightarrow> db_put k (indexed_value d)) \<circ>
            (case y of (k, d) \<Rightarrow> db_put k (indexed_value d)) =
          (case y of (k, d) \<Rightarrow> db_put k (indexed_value d)) \<circ>
            (case x of (k, d) \<Rightarrow> db_put k (indexed_value d))"
    proof (cases "x = y")
      case True
      then show ?thesis by simp
    next
      case False
      with xy assms(2) x y have "k1 \<noteq> k2"
        by (metis eq_key_imp_eq_value)
      then show ?thesis using x y by (auto simp: fun_eq_iff db_put_commute)
    qed
  next
    show "mset evs = mset evs'" using assms(1) by simp
  qed
  then show ?thesis by simp
qed

text \<open>
  A record whose timestamp is no string ends the scan with an exception, whatever
  has been collected before it.
\<close>

lemma query_loop_raises:
  "\<not> list_all has_timestamp_str (map snd it) \<Longrightarrow> \<exists>e. query_loop t it acc = Inl e"
proof (induction it arbitrary: acc)
  case Nil
  then show ?case by simp
next
  case (Cons a it)
  obtain k r where a: "a = (k, r)" by (cases a)
  show ?case
  proof (cases "has_timestamp_str r")
    case True
    then obtain d ts where r: "r = JObj d" "map_of d ''timestamp'' = Some (JStr ts)"
      by (cases r) (auto simp: has_timestamp_str_def split: option.splits json.splits)
    from Cons.prems a True have "\<not> list_all has_timestamp_str (map snd it)" by simp
    from Cons.IH [OF this] show ?thesis using a r by simp
  next
    case False
    then have "(\<exists>e. record_timestamp r = Inl e) \<or>
        (\<exists>v. record_timestamp r = Inr v \<and> py_ge v t = Inl TypeError)"
      by (cases r) (auto simp: has_timestamp_str_def split: option.splits json.splits)
    then show ?thesis using a by auto
  qed
qed

text \<open>
  C3, as the code has it. When every stored record carries a string as timestamp,
  \<open>query_events\<close> returns, in scan order, exactly the stored records whose
  timestamp is at least the threshold under string comparison (the empty list when
  there is none, or when the store is empty), and raises nothing. When some stored
  record carries a timestamp that is no string, \<open>query_events\<close> raises and returns
  no record at all. Either way the answer does not depend on the order of ingestion:
  events under distinct keys, stored in any two orders, give the same answer.
\<close>

theorem query_events_exact:
  assumes "mset evs' = mset evs" and "distinct (map fst evs)"
  shows "(list_all has_timestamp_str (map snd (db_iterator (db s))) \<longrightarrow>
            query_events t s =
              (Inr (filter (timestamp_ge t) (map snd (db_iterator (db s)))), s))
       \<and> (\<not> list_all has_timestamp_str (map snd (db_iterator (db s))) \<longrightarrow>
            (\<exists>e. query_events t s = (Inl e, s)))
       \<and> fst (query_events t (store_events eng evs' s0)) =
         fst (query_events t (store_events eng evs s0))"
proof (intro conjI impI)
  assume "list_all has_timestamp_str (map snd (db_iterator (db s)))"
  then show "query_events t s =
      (Inr (filter (timestamp_ge t) (map snd (db_iterator (db s)))), s)"
    by (simp add: query_events_def query_loop_acc)
next
  assume "\<not> list_all has_timestamp_str (map snd (db_iterator (db s)))"
  from query_loop_raises [OF this, of t "[]"]
  show "\<exists>e. query_events t s = (Inl e, s)" by (auto simp: query_events_def)
next
  have "db (store_events eng evs' s0) = db (store_events eng evs s0)"
    unfolding db_store_events by (rule fold_db_put_permute [OF assms])
  then show "fst (query_events t (store_events eng evs' s0)) =
         fst (query_events t (store_events eng evs s0))"
    by (simp add: query_events_def)
qed

theorem query_events_exact_witness:
  "mset [(sensor_b, reading_old), (sensor_a, reading_20)] =
       mset [(sensor_a, reading_20), (sensor_b, reading_old)]
   \<and> distinct (map fst [(sensor_a, reading_20), (sensor_b, reading_old)])
   \<and> list_all has_timestamp_str (map snd (db_iterator (db two_records)))
   \<and> query_events ''2024-01-01'' two_records = (Inr [indexed_value reading_20], two_records)
   \<and> query_events ''2025'' two_records = (Inr [], two_records)
   \<and> \<not> list_all has_timestamp_str (map snd (db_iterator (db null_record)))
   \<and> (\<exists>e. query_events ''2024-01-01'' null_record = (Inl e, null_record))
   \<and> fst (query_events ''2024-01-01''
         (store_events sample_engine [(sensor_b, reading_old), (sensor_a, reading_20)]
            empty_state)) =
       fst (query_events ''2024-01-01''
         (store_events sample_engine [(sensor_a, reading_20), (sensor_b, reading_old)]
            empty_state))"
proof -
  have h1: "list_all has_timestamp_str (map snd (db_iterator (db two_records)))"
    by (simp add: two_records_def db_iterator_def has_timestamp_str_def indexed_value_def
        dict_get_def reading_old_def reading_20_def)
  have h2: "mset [(sensor_b, reading_old), (sensor_a, reading_20)] =
       mset [(sensor_a, reading_20), (sensor_b, reading_old)]"
    by simp
  have h3: "distinct (map fst [(sensor_a, reading_20), (sensor_b, reading_old)])"
    by (simp add: sensor_a_def sensor_b_def)
  have h4: "\<not> list_all has_timestamp_str (map snd (db_iterator (db null_record)))"
    by (simp add: null_record_def db_iterator_def has_timestamp_str_def indexed_value_def
        dict_get_def reading_null_def)
  have f1: "filter (timestamp_ge ''2024-01-01'') (map snd (db_iterator (db two_records))) =
      [indexed_value reading_20]"
    by (simp add: two_records_def db_iterator_def timestamp_ge_def indexed_value_def
        dict_get_def reading_old_def reading_20_def)
  have f2: "filter (timestamp_ge ''2025'') (map snd (db_iterator (db two_records))) = []"
    by (simp add: two_records_def db_iterator_def timestamp_ge_def indexed_value_def
        dict_get_def reading_old_def reading_20_def)
  from query_events_exact [OF h2 h3, of two_records "''2024-01-01''" sample_engine empty_state]
       query_events_exact [OF h2 h3, of two_records "''2025''" sample_engine empty_state]
       query_events_exact [OF h2 h3, of null_record "''2024-01-01''" sample_engine empty_state]
  show ?thesis using h1 h2 h3 h4 by (simp add: f1 f2)
qed

text \<open>
  C3 as stated fails. Two events are stored, both calls of \<open>store_event\<close> succeed;
  the second carries \<^verbatim>\<open>"timestamp": null\<close>. The record of the first is in the store and
  its timestamp is at least the threshold, yet the query returns no record: it
  raises \<^verbatim>\<open>TypeError\<close>.
\<close>

theorem query_events_raises_on_null_timestamp:
  "fst (store_event sample_engine sensor_b (JObj reading_null)
          (snd (store_event sample_engine sensor_a (JObj reading_20) empty_state))) = Inr ()
   \<and> timestamp_ge ''2024-01-01'' (indexed_value reading_20)
   \<and> db_get sensor_a (db (store_events sample_engine
          [(sensor_a, reading_20), (sensor_b, reading_null)] empty_state))
       = Some (indexed_value reading_20)
   \<and> fst (query_events ''2024-01-01'' (store_events sample_engine
          [(sensor_a, reading_20), (sensor_b, reading_null)] empty_state)) = Inl TypeError"
  by (simp add: evaluation sensor_b_def reading_null_def timestamp_ge_def
      query_events_def db_iterator_def db_get_def)

text \<open>
  The borders of the scan: an empty store gives the empty answer, and a record whose
  timestamp is a number makes the comparison, and with it the query, raise.
\<close>

lemma query_events_empty_store:
  "db s = [] \<Longrightarrow> query_events t s = (Inr [], s)"
  by (simp add: query_events_def db_iterator_def)

lemma query_events_number_timestamp:
  "query_events t \<lparr>db = [(k, indexed_value [(''timestamp'', JNum 5)])], sensor_data = tbl\<rparr> =
     (Inl TypeError, \<lparr>db = [(k, indexed_value [(''timestamp'', JNum 5)])], sensor_data = tbl\<rparr>)"
  by (simp add: query_events_def db_iterator_def indexed_value_def dict_get_def)




text \<open>
  C10. \<open>query_events\<close> and \<open>aggregate_metrics\<close> leave both stores as they found
  them, for every state and every threshold, also when the scan raises.
\<close>

theorem queries_read_only:
  "snd (query_events t s) = s \<and> snd (aggregate_metrics eng s) = s"
  by (simp add: query_events_def aggregate_metrics_def)

section \<open>The ingestion loop and a malformed message\<close>

lemma consume_stream_append:
  "consume_stream eng (pre @ post) s =
     (case consume_stream eng pre s of
        (Inl e, s') \<Rightarrow> (Inl e, s')
      | (Inr u, s') \<Rightarrow> consume_stream eng post s')"
  by (induction pre arbitrary: s) (auto split: option.splits sum.splits prod.splits)

text \<open>
  C6, as the code has it. A stream with a malformed message ends the loop at that
  message: the messages before it have been passed to \<open>store_event\<close> (unless one
  of them ended the loop already), the decoding error leaves the loop, and nothing
  that follows the message is passed to \<open>store_event\<close>.
\<close>

theorem consume_stream_stops_at_malformed:
  "consume_stream eng (pre @ \<lparr>msg_key = k, msg_value = None\<rparr> # post) s =
     (case consume_stream eng pre s of
        (Inl e, s') \<Rightarrow> (Inl e, s')
      | (Inr u, s') \<Rightarrow> (Inl JSONDecodeError, s'))"
  by (simp add: consume_stream_append split: prod.splits sum.splits)

text \<open>
  C6 as stated fails: a valid message that follows a malformed one is not indexed,
  while the same message alone is.
\<close>

theorem malformed_message_ends_ingestion:
  "consume_stream sample_engine
     [\<lparr>msg_key = Some ''s1'', msg_value = None\<rparr>,
      \<lparr>msg_key = Some ''s2'', msg_value = Some (JObj reading_20)\<rparr>] empty_state
   = (Inl JSONDecodeError, empty_state)
   \<and> db_get (py_str (Some ''s2'')) (db (snd (consume_stream sample_engine
       [\<lparr>msg_key = Some ''s1'', msg_value = None\<rparr>,
        \<lparr>msg_key = Some ''s2'', msg_value = Some (JObj reading_20)\<rparr>] empty_state))) = None
   \<and> db_get (py_str (Some ''s2'')) (db (snd (consume_stream sample_engine
       [\<lparr>msg_key = Some ''s2'', msg_value = Some (JObj reading_20)\<rparr>] empty_state)))
     = Some (indexed_value reading_20)"
proof -
  have "db_get (py_str (Some ''s2'')) (db (snd (consume_stream sample_engine
       [\<lparr>msg_key = Some ''s2'', msg_value = Some (JObj reading_20)\<rparr>] empty_state)))
     = Some (indexed_value reading_20)"
    by (simp add: Let_def db_get_put_same split: sum.splits)
  then show ?thesis by (simp add: empty_state_def db_get_def)
qed

section \<open>The snapshot feed\<close>

lemma mset_fold_db_put:
  "distinct (map fst evs) \<Longrightarrow> set (map fst evs) \<inter> set (map fst d0) = {} \<Longrightarrow>
   mset (fold (\<lambda>(k, d). db_put k (indexed_value d)) evs d0) =
   mset (map (\<lambda>(k, d). (k, indexed_value d)) evs) + mset d0"
proof (induction evs arbitrary: d0)
  case Nil
  then show ?case by simp
next
  case (Cons a evs)
  obtain k d where a: "a = (k, d)" by (cases a)
  have new: "k \<notin> set (map fst d0)" using Cons.prems a by auto
  have disj: "set (map fst evs) \<inter> set (map fst (db_put k (indexed_value d) d0)) = {}"
    using Cons.prems a by (simp only: keys_db_put) auto
  have "distinct (map fst evs)" using Cons.prems by simp
  from Cons.IH [OF this disj] show ?case
    using a new by (simp add: mset_db_put_new)
qed

lemma websocket_query_pushed:
  "pushed (websocket_query s) = map snd (db_iterator (db s))"
proof -
  have "pushed (map (\<lambda>(key, record). SendJson record) xs) = map snd xs" for xs
    by (induction xs) auto
  then show ?thesis by (simp add: websocket_query_def)
qed

text \<open>
  C8. After events under N distinct keys have been stored into an empty point index,
  the handler accepts the connection, pushes the records of the scan one by one in
  scan order, and returns: N documents in all, which are the records built from the
  N events.
\<close>

theorem snapshot_feed_emits_all:
  assumes "distinct (map fst evs)" and "db s = []"
  shows "websocket_query (store_events eng evs s) =
           Accept # map SendJson (map snd (db_iterator (db (store_events eng evs s))))
       \<and> length (pushed (websocket_query (store_events eng evs s))) = length evs
       \<and> mset (pushed (websocket_query (store_events eng evs s))) =
           mset (map (\<lambda>(key, d). indexed_value d) evs)"
proof -
  let ?s' = "store_events eng evs s"
  have m: "mset (db ?s') = mset (map (\<lambda>(k, d). (k, indexed_value d)) evs)"
    using mset_fold_db_put [OF assms(1), of "[]"] assms(2) by (simp add: db_store_events)
  have "mset (map snd (db ?s')) =
      mset (map snd (map (\<lambda>(k, d). (k, indexed_value d)) evs))"
    by (simp only: mset_map m)
  also have "map snd (map (\<lambda>(k, d). (k, indexed_value d)) evs) =
      map (\<lambda>(key, d). indexed_value d) evs"
    by (induction evs) auto
  finally have p: "mset (pushed (websocket_query ?s')) =
      mset (map (\<lambda>(key, d). indexed_value d) evs)"
    by (simp add: websocket_query_pushed db_iterator_def)
  from p have "size (mset (pushed (websocket_query ?s'))) =
      size (mset (map (\<lambda>(key, d). indexed_value d) evs))"
    by simp
  then have l: "length (pushed (websocket_query ?s')) = length evs" by simp
  have "websocket_query ?s' = Accept # map SendJson (map snd (db_iterator (db ?s')))"
    by (simp add: websocket_query_def case_prod_beta comp_def)
  with l p show ?thesis by simp
qed

theorem snapshot_feed_emits_all_witness:
  "distinct (map fst [(sensor_b, reading_22), (sensor_a, reading_20)])
   \<and> db empty_state = []
   \<and> websocket_query
       (store_events sample_engine [(sensor_b, reading_22), (sensor_a, reading_20)] empty_state)
       = [Accept, SendJson (indexed_value reading_22), SendJson (indexed_value reading_20)]
   \<and> length (pushed (websocket_query
       (store_events sample_engine [(sensor_b, reading_22), (sensor_a, reading_20)]
          empty_state))) = 2"
proof -
  have h1: "distinct (map fst [(sensor_b, reading_22), (sensor_a, reading_20)])"
    by (simp add: sensor_a_def sensor_b_def)
  have h2: "db empty_state = []" by (simp add: empty_state_def)
  have d: "db (store_events sample_engine [(sensor_b, reading_22), (sensor_a, reading_20)]
        empty_state)
      = [(sensor_b, indexed_value reading_22), (sensor_a, indexed_value reading_20)]"
    by (simp only: db_store_events) (simp add: empty_state_def sensor_a_def sensor_b_def)
  from snapshot_feed_emits_all [OF h1 h2, of sample_engine]
  show ?thesis using h1 h2 by (simp only: d db_iterator_def) simp
qed

end
